theory Spec2Isabelle
  imports Main "HOL-Library.Word"
begin

section \<open>The pipeline runner of heka (pipeline/pipeline\_runner.go)\<close>

text \<open>
  The Go file defines the unit of work (\<open>PipelinePack\<close>), its constructor and reset, the
  routing and filter stage (\<open>filterProcessor\<close>), the event broadcaster
  (\<open>BroadcastEvent\<close>) and, inside \<open>Run\<close>, the per-message \<open>pipeline\<close> closure and the
  recycle channel. Plugins, the message type, the configuration type and go-notify live in
  other files; they enter the model as type parameters and as the fields of one record of
  external behaviour.

  What the model takes for granted: a plugin method returns (a plugin that panics or never
  returns is outside it); the configuration and the wrappers it points to are not nil and
  are not changed while a run lasts; a unit has one owner at a time, so a unit is a value
  and the channel queues values. The input runners and the signal loop of \<open>Run\<close> are not
  modelled.
\<close>

subsection \<open>Go values\<close>

type_synonym byte = "8 word"

text \<open>
  A byte slice: the part of the backing array that starts at the slice's first element
  (its length is the capacity) and the slice length.
\<close>

record byte_slice =
  backing :: "byte list"
  slice_len :: nat

definition go_len :: "byte_slice \<Rightarrow> nat" where
  "go_len s = slice_len s"

definition go_cap :: "byte_slice \<Rightarrow> nat" where
  "go_cap s = length (backing s)"

text \<open>\<^verbatim>\<open>make([]byte, n)\<close>: \<open>n\<close> zero bytes, length and capacity \<open>n\<close>.\<close>

definition make_bytes :: "nat \<Rightarrow> byte_slice" where
  "make_bytes n = \<lparr>backing = replicate n 0, slice_len = n\<rparr>"

text \<open>\<^verbatim>\<open>s[:cap(s)]\<close>: same backing array, length extended to the capacity.\<close>

definition reslice_to_cap :: "byte_slice \<Rightarrow> byte_slice" where
  "reslice_to_cap s = s\<lparr>slice_len := go_cap s\<rparr>"


text \<open>
  A buffered channel, seen one operation at a time: the queued values, oldest first, and
  the capacity. A send on a full channel and a receive on an empty one do not complete;
  the caller stays suspended, which is the value \<open>None\<close>.
\<close>

record 'a chan =
  buf :: "'a list"
  chan_cap :: nat


definition send :: "'a chan \<Rightarrow> 'a \<Rightarrow> 'a chan option" where
  "send c x = (if length (buf c) < chan_cap c then Some (c\<lparr>buf := buf c @ [x]\<rparr>) else None)"


subsection \<open>Configuration, plugin wrappers and the unit of work\<close>

text \<open>Control channel event types used by go-notify.\<close>

definition RELOAD :: string where
  "RELOAD = ''reload''"

definition STOP :: string where
  "STOP = ''stop''"

text \<open>
  A plugin wrapper: the shared state that receives lifecycle events (\<open>None\<close> is the nil
  interface) and the factory of fresh instances. The map of a wrapper fixes the kind of
  plugin it creates, so the type assertion after \<open>Create()\<close> is the identity.
\<close>

record ('a, 'g) PluginWrapper =
  global :: "'g option"
  Create :: "unit \<Rightarrow> 'a"

text \<open>A chain definition: the filter names in order and the output names.\<close>

record FilterChain =
  Filters :: "string list"
  Outputs :: "string list"

text \<open>
  The fields of the configuration that this file reads. \<open>Lookup\<close> is the chain lookup's
  \<open>LocateChain\<close> method: the chain name and whether one was found.
\<close>

record ('m, 'd, 'f, 'o, 'g) PipelineConfig =
  DefaultDecoder :: string
  DefaultFilterChain :: string
  PoolSize :: int
  Decoders :: "string \<rightharpoonup> ('d, 'g) PluginWrapper"
  Filters :: "string \<rightharpoonup> ('f, 'g) PluginWrapper"
  Outputs :: "string \<rightharpoonup> ('o, 'g) PluginWrapper"
  FilterChains :: "string \<rightharpoonup> FilterChain"
  Lookup :: "'m \<Rightarrow> string \<times> bool"

record ('m, 'd, 'f, 'o, 'g) PipelinePack =
  MsgBytes :: byte_slice
  Message :: 'm
  Config :: "('m, 'd, 'f, 'o, 'g) PipelineConfig"
  Decoder :: string
  Decoders :: "string \<rightharpoonup> 'd"
  Filters :: "string \<rightharpoonup> 'f"
  Outputs :: "string \<rightharpoonup> 'o"
  Decoded :: bool
  Blocked :: bool
  FilterChain :: string
  ChainCount :: int
  OutputNames :: "string \<rightharpoonup> bool"

text \<open>
  What the file calls but does not define. \<open>Decode\<close>, \<open>FilterMsg\<close> and \<open>Deliver\<close> are the
  methods of the three plugin interfaces: each receives the instance and the unit and may
  change any field of the unit; \<open>Decode\<close> also returns its error (\<open>None\<close> is nil).
  \<open>Post\<close> is go-notify's publish with its error. \<open>rangeOrder\<close> is the order in which a
  \<open>range\<close> loop visits the keys of a map, which Go leaves open; it is given the test of
  being a key of the map. \<open>emptyMessage\<close> is the zero value \<^verbatim>\<open>Message{}\<close>.
\<close>

definition has_key :: "(string \<rightharpoonup> 'v) \<Rightarrow> string \<Rightarrow> bool" where
  "has_key m k = (m k \<noteq> None)"

record ('m, 'd, 'f, 'o, 'g) Externals =
  Decode :: "'d \<Rightarrow> ('m, 'd, 'f, 'o, 'g) PipelinePack \<Rightarrow> string option \<times> ('m, 'd, 'f, 'o, 'g) PipelinePack"
  FilterMsg :: "'f \<Rightarrow> ('m, 'd, 'f, 'o, 'g) PipelinePack \<Rightarrow> ('m, 'd, 'f, 'o, 'g) PipelinePack"
  Deliver :: "'o \<Rightarrow> ('m, 'd, 'f, 'o, 'g) PipelinePack \<Rightarrow> ('m, 'd, 'f, 'o, 'g) PipelinePack"
  Post :: "string \<Rightarrow> string option"
  rangeOrder :: "(string \<Rightarrow> bool) \<Rightarrow> string list"
  emptyMessage :: 'm

text \<open>A \<open>range\<close> loop over the map \<open>m\<close> visits every key once.\<close>

definition range_ok :: "('m, 'd, 'f, 'o, 'g) Externals \<Rightarrow> (string \<rightharpoonup> 'v) \<Rightarrow> bool" where
  "range_ok env m =
     (distinct (rangeOrder env (has_key m)) \<and> set (rangeOrder env (has_key m)) = dom m)"

subsection \<open>Construction and reset\<close>

definition InitDecoders ::
  "('m, 'd, 'f, 'o, 'g) Externals \<Rightarrow> ('m, 'd, 'f, 'o, 'g) PipelineConfig \<Rightarrow>
   ('m, 'd, 'f, 'o, 'g) PipelinePack \<Rightarrow> ('m, 'd, 'f, 'o, 'g) PipelinePack" where
  "InitDecoders env config self =
     foldl (\<lambda>self name.
              case PipelineConfig.Decoders config name of
                None \<Rightarrow> self
              | Some wrapper \<Rightarrow> self\<lparr>Decoders := (Decoders self)(name \<mapsto> Create wrapper ())\<rparr>)
       self (rangeOrder env (has_key (PipelineConfig.Decoders config)))"

definition InitFilters ::
  "('m, 'd, 'f, 'o, 'g) Externals \<Rightarrow> ('m, 'd, 'f, 'o, 'g) PipelineConfig \<Rightarrow>
   ('m, 'd, 'f, 'o, 'g) PipelinePack \<Rightarrow> ('m, 'd, 'f, 'o, 'g) PipelinePack" where
  "InitFilters env config self =
     foldl (\<lambda>self name.
              case PipelineConfig.Filters config name of
                None \<Rightarrow> self
              | Some wrapper \<Rightarrow> self\<lparr>Filters := (Filters self)(name \<mapsto> Create wrapper ())\<rparr>)
       self (rangeOrder env (has_key (PipelineConfig.Filters config)))"

definition InitOutputs ::
  "('m, 'd, 'f, 'o, 'g) Externals \<Rightarrow> ('m, 'd, 'f, 'o, 'g) PipelineConfig \<Rightarrow>
   ('m, 'd, 'f, 'o, 'g) PipelinePack \<Rightarrow> ('m, 'd, 'f, 'o, 'g) PipelinePack" where
  "InitOutputs env config self =
     foldl (\<lambda>self name.
              case PipelineConfig.Outputs config name of
                None \<Rightarrow> self
              | Some wrapper \<Rightarrow> self\<lparr>Outputs := (Outputs self)(name \<mapsto> Create wrapper ())\<rparr>)
       self (rangeOrder env (has_key (PipelineConfig.Outputs config)))"

definition NewPipelinePack ::
  "('m, 'd, 'f, 'o, 'g) Externals \<Rightarrow> ('m, 'd, 'f, 'o, 'g) PipelineConfig \<Rightarrow>
   ('m, 'd, 'f, 'o, 'g) PipelinePack" where
  "NewPipelinePack env config =
     (let msgBytes = make_bytes 65536;
          message = emptyMessage env;
          outputnames = Map.empty;
          filters = Map.empty;
          decoders = Map.empty;
          outputs = Map.empty;
          pack = \<lparr>MsgBytes = msgBytes,
                  Message = message,
                  Config = config,
                  Decoder = DefaultDecoder config,
                  Decoders = decoders,
                  Filters = filters,
                  Outputs = outputs,
                  Decoded = False,
                  Blocked = False,
                  FilterChain = DefaultFilterChain config,
                  ChainCount = 0,
                  OutputNames = outputnames\<rparr>
      in InitOutputs env config (InitFilters env config (InitDecoders env config pack)))"

text \<open>
  \<open>Zero\<close>: the loop deletes from \<open>OutputNames\<close> every key that the \<open>range\<close> visits.
\<close>

definition Zero ::
  "('m, 'd, 'f, 'o, 'g) Externals \<Rightarrow> ('m, 'd, 'f, 'o, 'g) PipelinePack \<Rightarrow>
   ('m, 'd, 'f, 'o, 'g) PipelinePack" where
  "Zero env self =
     (let self = self\<lparr>MsgBytes := reslice_to_cap (MsgBytes self)\<rparr>;
          self = self\<lparr>Decoder := DefaultDecoder (Config self)\<rparr>;
          self = self\<lparr>Decoded := False\<rparr>;
          self = self\<lparr>Blocked := False\<rparr>;
          self = self\<lparr>FilterChain := DefaultFilterChain (Config self)\<rparr>
      in self\<lparr>OutputNames :=
                 foldl (\<lambda>names outputName. names(outputName := None))
                   (OutputNames self) (rangeOrder env (has_key (OutputNames self)))\<rparr>)"

subsection \<open>What a cycle does, as a list of events\<close>

text \<open>
  Every call that leaves this file and every log line is recorded, in order.
  \<open>FilterMsgCalled name b\<close>: \<open>FilterMsg\<close> was called on the filter instance stored under
  \<open>name\<close>, and \<open>b\<close> is the value of \<open>Blocked\<close> that the test after the call read.
  \<open>NilFilterCall name\<close>: the method call on the nil interface that the lookup of an
  absent \<open>name\<close> yields, a run-time panic. \<open>RecycleSent\<close>: the send on the recycle
  channel completed.
\<close>

datatype event =
    Log string
  | DecodeCalled string
  | FilterMsgCalled string bool
  | NilFilterCall string
  | DeliverCalled string
  | ZeroCalled
  | RecycleSent

text \<open>
  How a function ends: it returns, it panics, or (for the deferred send only) the
  goroutine stays suspended on the full channel.
\<close>

datatype exit = Returned | Panicked | Suspended

fun is_filter_call :: "event \<Rightarrow> bool" where
  "is_filter_call (FilterMsgCalled name b) = True"
| "is_filter_call (NilFilterCall name) = True"
| "is_filter_call e = False"

fun is_deliver :: "event \<Rightarrow> bool" where
  "is_deliver (DeliverCalled name) = True"
| "is_deliver e = False"

fun is_log :: "event \<Rightarrow> bool" where
  "is_log (Log s) = True"
| "is_log e = False"

text \<open>The completed \<open>FilterMsg\<close> calls of an event list: name and \<open>Blocked\<close> after the call.\<close>

fun filter_calls :: "event list \<Rightarrow> (string \<times> bool) list" where
  "filter_calls [] = []"
| "filter_calls (FilterMsgCalled name b # evs) = (name, b) # filter_calls evs"
| "filter_calls (e # evs) = filter_calls evs"

subsection \<open>The routing and filter stage\<close>

text \<open>Lines 122 to 128: the chain name that the stage resolves, and the unit after it.\<close>

definition resolveChain ::
  "('m, 'd, 'f, 'o, 'g) PipelinePack \<Rightarrow> string \<times> ('m, 'd, 'f, 'o, 'g) PipelinePack" where
  "resolveChain pipelinePack =
     (let config = Config pipelinePack in
      case Lookup config (Message pipelinePack) of
        (filterChainName, ok) \<Rightarrow>
          if ok then (filterChainName, pipelinePack\<lparr>FilterChain := filterChainName\<rparr>)
          else (FilterChain pipelinePack, pipelinePack))"

text \<open>Lines 134 to 136.\<close>

definition selectOutputs ::
  "string list \<Rightarrow> ('m, 'd, 'f, 'o, 'g) PipelinePack \<Rightarrow> ('m, 'd, 'f, 'o, 'g) PipelinePack" where
  "selectOutputs names pipelinePack =
     foldl (\<lambda>pack outputName. pack\<lparr>OutputNames := (OutputNames pack)(outputName \<mapsto> True)\<rparr>)
       pipelinePack names"

text \<open>Lines 137 to 143.\<close>

fun runFilters ::
  "('m, 'd, 'f, 'o, 'g) Externals \<Rightarrow> string list \<Rightarrow> ('m, 'd, 'f, 'o, 'g) PipelinePack \<Rightarrow>
   exit \<times> ('m, 'd, 'f, 'o, 'g) PipelinePack \<times> event list" where
  "runFilters env [] pipelinePack = (Returned, pipelinePack, [])"
| "runFilters env (filterName # rest) pipelinePack =
     (case Filters pipelinePack filterName of
        None \<Rightarrow> (Panicked, pipelinePack, [NilFilterCall filterName])
      | Some filter1 \<Rightarrow>
          (let pack' = FilterMsg env filter1 pipelinePack in
           if Blocked pack' then (Returned, pack', [FilterMsgCalled filterName True])
           else (case runFilters env rest pack' of
                   (ex, pack'', evs) \<Rightarrow> (ex, pack'', FilterMsgCalled filterName False # evs))))"

definition filterProcessor ::
  "('m, 'd, 'f, 'o, 'g) Externals \<Rightarrow> ('m, 'd, 'f, 'o, 'g) PipelinePack \<Rightarrow>
   exit \<times> ('m, 'd, 'f, 'o, 'g) PipelinePack \<times> event list" where
  "filterProcessor env pipelinePack =
     (let pipelinePack = pipelinePack\<lparr>OutputNames := Map.empty\<rparr>;
          config = Config pipelinePack
      in case resolveChain pipelinePack of
           (filterChainName, pipelinePack) \<Rightarrow>
             (case FilterChains config filterChainName of
                None \<Rightarrow>
                  (Returned, pipelinePack,
                   [Log (''Filter chain doesn't exist: '' @ filterChainName)])
              | Some filterChain \<Rightarrow>
                  runFilters env (FilterChain.Filters filterChain)
                    (selectOutputs (FilterChain.Outputs filterChain) pipelinePack)))"

subsection \<open>The per-message procedure\<close>

text \<open>
  Lines 182 to 196. The first component tells whether the procedure goes on to the filter
  stage (\<open>False\<close> is one of the two early returns).
\<close>

definition decodeStage ::
  "('m, 'd, 'f, 'o, 'g) Externals \<Rightarrow> ('m, 'd, 'f, 'o, 'g) PipelinePack \<Rightarrow>
   bool \<times> ('m, 'd, 'f, 'o, 'g) PipelinePack \<times> event list" where
  "decodeStage env pack =
     (if \<not> Decoded pack then
        (let decoderName = Decoder pack in
         case Decoders pack decoderName of
           None \<Rightarrow>
             (False, pack, [Log (''Decoder doesn't exist: '' @ decoderName @ [CHR 0x0A])])
         | Some decoder \<Rightarrow>
             (case Decode env decoder pack of
                (Some err, pack') \<Rightarrow>
                  (False, pack',
                   [DecodeCalled decoderName,
                    Log (''Error decoding message ('' @ decoderName @ ''): '' @ err)])
              | (None, pack') \<Rightarrow>
                  (True, pack'\<lparr>Decoded := True\<rparr>, [DecodeCalled decoderName])))
      else (True, pack, []))"

text \<open>
  Lines 205 to 215. The keys are those the \<open>range\<close> fixed when the loop started; a key
  whose entry is gone when its turn comes is not produced.
\<close>

fun deliverLoop ::
  "('m, 'd, 'f, 'o, 'g) Externals \<Rightarrow> string list \<Rightarrow> ('m, 'd, 'f, 'o, 'g) PipelinePack \<Rightarrow>
   ('m, 'd, 'f, 'o, 'g) PipelinePack \<times> event list" where
  "deliverLoop env [] pack = (pack, [])"
| "deliverLoop env (outputName # rest) pack =
     (case OutputNames pack outputName of
        None \<Rightarrow> deliverLoop env rest pack
      | Some use \<Rightarrow>
          if \<not> use then deliverLoop env rest pack
          else (case Outputs pack outputName of
                  None \<Rightarrow>
                    (case deliverLoop env rest pack of
                       (pack', evs) \<Rightarrow>
                         (pack', Log (''Output doesn't exist: '' @ outputName @ [CHR 0x0A]) # evs))
                | Some output \<Rightarrow>
                    (case deliverLoop env rest (Deliver env output pack) of
                       (pack', evs) \<Rightarrow> (pack', DeliverCalled outputName # evs))))"

text \<open>The body of the closure, lines 181 to 215, without the deferred call.\<close>

definition pipelineBody ::
  "('m, 'd, 'f, 'o, 'g) Externals \<Rightarrow> ('m, 'd, 'f, 'o, 'g) PipelinePack \<Rightarrow>
   exit \<times> ('m, 'd, 'f, 'o, 'g) PipelinePack \<times> event list" where
  "pipelineBody env pack =
     (case decodeStage env pack of
        (False, pack1, evs1) \<Rightarrow> (Returned, pack1, evs1)
      | (True, pack1, evs1) \<Rightarrow>
          (case filterProcessor env pack1 of
             (Panicked, pack2, evs2) \<Rightarrow> (Panicked, pack2, evs1 @ evs2)
           | (ex, pack2, evs2) \<Rightarrow>
               if Blocked pack2 then (Returned, pack2, evs1 @ evs2)
               else (case deliverLoop env (rangeOrder env (has_key (OutputNames pack2))) pack2 of
                       (pack3, evs3) \<Rightarrow> (Returned, pack3, evs1 @ evs2 @ evs3))))"

text \<open>
  The closure with its deferred function (lines 176 to 179), which runs when the body
  returns and when it panics: \<open>Zero\<close>, then the send on \<open>recycleChan\<close>.
\<close>

definition pipeline ::
  "('m, 'd, 'f, 'o, 'g) Externals \<Rightarrow> ('m, 'd, 'f, 'o, 'g) PipelinePack chan \<Rightarrow>
   ('m, 'd, 'f, 'o, 'g) PipelinePack \<Rightarrow>
   exit \<times> ('m, 'd, 'f, 'o, 'g) PipelinePack \<times> ('m, 'd, 'f, 'o, 'g) PipelinePack chan \<times> event list" where
  "pipeline env recycleChan pack =
     (case pipelineBody env pack of
        (ex, pack1, evs) \<Rightarrow>
          (let pack2 = Zero env pack1 in
           case send recycleChan pack2 of
             None \<Rightarrow> (Suspended, pack2, recycleChan, evs @ [ZeroCalled])
           | Some recycleChan' \<Rightarrow> (ex, pack2, recycleChan', evs @ [ZeroCalled, RecycleSent])))"

subsection \<open>The event broadcaster\<close>

text \<open>
  What \<open>BroadcastEvent\<close> does, in order: the publish, the log line, and each call of a
  shared state's \<open>Event\<close> method.
\<close>

datatype 'g ctl_event =
    PostCalled string
  | CtlLog string
  | EventCalled 'g string

text \<open>One of the two loops over a wrapper map (lines 153 to 157 and 158 to 162).\<close>

fun eventLoop ::
  "(string \<rightharpoonup> ('a, 'g) PluginWrapper) \<Rightarrow> string \<Rightarrow> string list \<Rightarrow> 'g ctl_event list" where
  "eventLoop wrappers eventType [] = []"
| "eventLoop wrappers eventType (name # rest) =
     (case wrappers name of
        None \<Rightarrow> eventLoop wrappers eventType rest
      | Some wrapper \<Rightarrow>
          (case global wrapper of
             None \<Rightarrow> eventLoop wrappers eventType rest
           | Some g \<Rightarrow> EventCalled g eventType # eventLoop wrappers eventType rest))"

definition BroadcastEvent ::
  "('m, 'd, 'f, 'o, 'g) Externals \<Rightarrow> ('m, 'd, 'f, 'o, 'g) PipelineConfig \<Rightarrow> string \<Rightarrow>
   'g ctl_event list" where
  "BroadcastEvent env config eventType =
     (let err = Post env eventType in
      PostCalled eventType #
      (case err of
         None \<Rightarrow> []
       | Some e \<Rightarrow> [CtlLog (''Error sending '' @ e @ '' event:'')]) @
      eventLoop (PipelineConfig.Filters config) eventType
        (rangeOrder env (has_key (PipelineConfig.Filters config))) @
      eventLoop (PipelineConfig.Outputs config) eventType
        (rangeOrder env (has_key (PipelineConfig.Outputs config))))"

subsection \<open>The recycle channel in \<open>Run\<close>\<close>



text \<open>
  The pool while inputs run: the channel and the number of units that were taken from it
  and not sent back yet.
\<close>

record 'p pool =
  recycleChan :: "'p chan"
  outstanding :: nat






subsection \<open>Predicates for the statements\<close>

text \<open>The events of the stages, as opposed to those of the deferred function.\<close>

definition stage_event :: "event \<Rightarrow> bool" where
  "stage_event e = (e \<noteq> ZeroCalled \<and> e \<noteq> RecycleSent)"

text \<open>
  The contract of an output that the delivery loop relies on: \<open>Deliver\<close> leaves the unit's
  set of output names and its map of output instances as they are.
\<close>

definition output_frame :: "('m, 'd, 'f, 'o, 'g) Externals \<Rightarrow> bool" where
  "output_frame env =
     (\<forall>out pack. OutputNames (Deliver env out pack) = OutputNames pack
               \<and> Outputs (Deliver env out pack) = Outputs pack)"



subsection \<open>A small configuration to run the definitions on\<close>

text \<open>
  Messages are strings and plugin instances are numbers. Decoder 0 decodes every payload
  to \<open>ham\<close>, decoder 1 to \<open>spam\<close>, decoder 2 to \<open>lost\<close>, decoder 3 to \<open>ghost\<close>, and any
  other decoder fails. Filter 1 blocks; every other filter does nothing. Outputs leave the
  unit alone. The lookup sends \<open>spam\<close> to the chain \<open>blocking\<close>, \<open>ghost\<close> to a chain that
  names a filter nobody registered, \<open>lost\<close> to a chain that is not defined, and finds
  nothing for any other message. The default chain selects \<open>out1\<close> and \<open>out2\<close>, and only
  \<open>out1\<close> is registered. A publish of \<open>stop\<close> fails.
\<close>

definition ex_config :: "(string, nat, nat, nat, nat) PipelineConfig" where
  "ex_config =
     \<lparr>DefaultDecoder = ''json'',
      DefaultFilterChain = ''default'',
      PoolSize = 2,
      PipelineConfig.Decoders =
                 [''json'' \<mapsto> \<lparr>global = None, Create = (\<lambda>u. 0)\<rparr>,
                  ''spamdec'' \<mapsto> \<lparr>global = None, Create = (\<lambda>u. 1)\<rparr>,
                  ''lostdec'' \<mapsto> \<lparr>global = None, Create = (\<lambda>u. 2)\<rparr>,
                  ''ghostdec'' \<mapsto> \<lparr>global = None, Create = (\<lambda>u. 3)\<rparr>,
                  ''bad'' \<mapsto> \<lparr>global = None, Create = (\<lambda>u. 4)\<rparr>],
      PipelineConfig.Filters =
                [''block-all'' \<mapsto> \<lparr>global = Some 7, Create = (\<lambda>u. 1)\<rparr>,
                 ''noop'' \<mapsto> \<lparr>global = None, Create = (\<lambda>u. 2)\<rparr>],
      PipelineConfig.Outputs =
                [''out1'' \<mapsto> \<lparr>global = Some 9, Create = (\<lambda>u. 5)\<rparr>],
      FilterChains =
        [''default'' \<mapsto> \<lparr>FilterChain.Filters = [], FilterChain.Outputs = [''out1'', ''out2'']\<rparr>,
         ''blocking'' \<mapsto> \<lparr>FilterChain.Filters = [''block-all'', ''noop''],
                          FilterChain.Outputs = [''out1'']\<rparr>,
         ''ghost'' \<mapsto> \<lparr>FilterChain.Filters = [''noop'', ''missing''],
                       FilterChain.Outputs = [''out1'']\<rparr>],
      Lookup = (\<lambda>m. if m = ''spam'' then (''blocking'', True)
                     else if m = ''ghost'' then (''ghost'', True)
                     else if m = ''lost'' then (''nowhere'', True)
                     else ([], False))\<rparr>"

definition ex_env :: "(string, nat, nat, nat, nat) Externals" where
  "ex_env =
     \<lparr>Decode = (\<lambda>d pack. if d = 0 then (None, pack\<lparr>Message := ''ham''\<rparr>)
                          else if d = 1 then (None, pack\<lparr>Message := ''spam''\<rparr>)
                          else if d = 2 then (None, pack\<lparr>Message := ''lost''\<rparr>)
                          else if d = 3 then (None, pack\<lparr>Message := ''ghost''\<rparr>)
                          else (Some ''bad payload'', pack)),
      FilterMsg = (\<lambda>f pack. if f = 1 then pack\<lparr>Blocked := True\<rparr> else pack),
      Deliver = (\<lambda>out pack. pack),
      Post = (\<lambda>eventType. if eventType = ''stop'' then Some ''no listeners'' else None),
      rangeOrder = (\<lambda>is_key. filter is_key
                      [''json'', ''spamdec'', ''lostdec'', ''ghostdec'', ''bad'',
                       ''block-all'', ''noop'', ''out1'', ''out2'']),
      emptyMessage = []\<rparr>"

text \<open>
  The unit that \<open>NewPipelinePack ex_env ex_config\<close> builds, but with a four-byte buffer;
  and a recycle channel for a pool of two, with one unit queued.
\<close>

definition ex_pack :: "(string, nat, nat, nat, nat) PipelinePack" where
  "ex_pack =
     \<lparr>MsgBytes = make_bytes 4,
      Message = [],
      Config = ex_config,
      Decoder = ''json'',
      Decoders = [''json'' \<mapsto> 0, ''spamdec'' \<mapsto> 1, ''lostdec'' \<mapsto> 2, ''ghostdec'' \<mapsto> 3,
                  ''bad'' \<mapsto> 4],
      Filters = [''block-all'' \<mapsto> 1, ''noop'' \<mapsto> 2],
      Outputs = [''out1'' \<mapsto> 5],
      Decoded = False,
      Blocked = False,
      FilterChain = ''default'',
      ChainCount = 0,
      OutputNames = Map.empty\<rparr>"

definition ex_chan :: "(string, nat, nat, nat, nat) PipelinePack chan" where
  "ex_chan = \<lparr>buf = [ex_pack], chan_cap = 3\<rparr>"


text \<open>A unit in the middle of a cycle: decoded, routed to \<open>blocking\<close>, and blocked.\<close>

definition ex_used :: "(string, nat, nat, nat, nat) PipelinePack" where
  "ex_used =
     ex_pack\<lparr>MsgBytes := \<lparr>backing = [1, 2, 3, 4], slice_len = 2\<rparr>,
             Message := ''spam'', Decoder := ''spamdec'', Decoded := True, Blocked := True,
             FilterChain := ''blocking'',
             OutputNames := [''out1'' \<mapsto> True, ''out2'' \<mapsto> False]\<rparr>"

text \<open>
  Fresh units for which the input selected another decoder: the one that yields \<open>lost\<close>,
  the one that yields \<open>spam\<close>, the one that yields \<open>ghost\<close>.
\<close>

definition ex_lost :: "(string, nat, nat, nat, nat) PipelinePack" where
  "ex_lost = ex_pack\<lparr>Decoder := ''lostdec''\<rparr>"

definition ex_spam :: "(string, nat, nat, nat, nat) PipelinePack" where
  "ex_spam = ex_pack\<lparr>Decoder := ''spamdec''\<rparr>"

definition ex_ghost :: "(string, nat, nat, nat, nat) PipelinePack" where
  "ex_ghost = ex_pack\<lparr>Decoder := ''ghostdec''\<rparr>"

text \<open>The fresh unit once decoded to \<open>ham\<close>, and once routed through the default chain.\<close>

definition ex_ham1 :: "(string, nat, nat, nat, nat) PipelinePack" where
  "ex_ham1 = ex_pack\<lparr>Message := ''ham'', Decoded := True\<rparr>"

definition ex_ham2 :: "(string, nat, nat, nat, nat) PipelinePack" where
  "ex_ham2 = ex_ham1\<lparr>OutputNames := [''out1'' \<mapsto> True, ''out2'' \<mapsto> True]\<rparr>"

text \<open>
  The unit \<open>ex_ghost\<close> once decoded, and when the filter stage reaches the name
  \<open>missing\<close> of its chain.
\<close>

definition ex_ghost1 :: "(string, nat, nat, nat, nat) PipelinePack" where
  "ex_ghost1 = ex_ghost\<lparr>Message := ''ghost'', Decoded := True\<rparr>"

definition ex_ghost2 :: "(string, nat, nat, nat, nat) PipelinePack" where
  "ex_ghost2 = ex_ghost1\<lparr>FilterChain := ''ghost'', OutputNames := [''out1'' \<mapsto> True]\<rparr>"

definition ex_ghost_chain :: FilterChain where
  "ex_ghost_chain =
     \<lparr>FilterChain.Filters = [''noop'', ''missing''], FilterChain.Outputs = [''out1'']\<rparr>"

section \<open>Properties\<close>

subsection \<open>Running the example\<close>

lemmas ex_defs = ex_env_def ex_pack_def ex_config_def ex_chan_def

lemmas run_defs = pipeline_def pipelineBody_def decodeStage_def filterProcessor_def
  resolveChain_def selectOutputs_def Zero_def send_def has_key_def Let_def

lemma ex_pack_new:
  "NewPipelinePack ex_env ex_config = ex_pack\<lparr>MsgBytes := make_bytes 65536\<rparr>"
  by (simp add: NewPipelinePack_def InitDecoders_def InitFilters_def InitOutputs_def
      has_key_def Let_def ex_env_def ex_config_def ex_pack_def)

subsection \<open>Reset\<close>

lemma foldl_delete_keys:
  "foldl (\<lambda>names outputName. names(outputName := None)) m ks k =
     (if k \<in> set ks then None else m k)"
  by (induction ks arbitrary: m) auto

lemma Zero_OutputNames:
  assumes "range_ok env (OutputNames pack)"
  shows "OutputNames (Zero env pack) = Map.empty"
proof
  fix k
  have "set (rangeOrder env (has_key (OutputNames pack))) = dom (OutputNames pack)"
    using assms by (simp add: range_ok_def)
  then show "OutputNames (Zero env pack) k = None"
    by (cases "OutputNames pack k") (auto simp: Zero_def Let_def foldl_delete_keys)
qed

lemma ex_used_range: "range_ok ex_env (OutputNames ex_used)"
  by (auto simp: range_ok_def ex_env_def ex_used_def has_key_def)

text \<open>
  C3. Whatever the unit held, after \<open>Zero\<close> the flags \<open>Decoded\<close> and \<open>Blocked\<close> are false,
  the decoder and the chain selections are the configured defaults, the set of output
  names is empty, and the raw buffer's length is its capacity, which \<open>Zero\<close> leaves as it
  was. The only assumption is that the \<open>range\<close> in \<open>Zero\<close> visits every key of
  \<open>OutputNames\<close>.
\<close>

theorem Zero_resets:
  assumes "range_ok env (OutputNames pack)"
  shows "Decoded (Zero env pack) = False
       \<and> Blocked (Zero env pack) = False
       \<and> Decoder (Zero env pack) = DefaultDecoder (Config pack)
       \<and> FilterChain (Zero env pack) = DefaultFilterChain (Config pack)
       \<and> OutputNames (Zero env pack) = Map.empty
       \<and> go_len (MsgBytes (Zero env pack)) = go_cap (MsgBytes (Zero env pack))
       \<and> go_cap (MsgBytes (Zero env pack)) = go_cap (MsgBytes pack)"
  using Zero_OutputNames [OF assms]
  by (simp add: Zero_def Let_def reslice_to_cap_def go_len_def go_cap_def)

theorem Zero_resets_witness:
  "range_ok ex_env (OutputNames ex_used)
   \<and> Decoded ex_used \<and> Blocked ex_used \<and> go_len (MsgBytes ex_used) = 2
   \<and> Decoded (Zero ex_env ex_used) = False
   \<and> Blocked (Zero ex_env ex_used) = False
   \<and> Decoder (Zero ex_env ex_used) = ''json''
   \<and> FilterChain (Zero ex_env ex_used) = ''default''
   \<and> OutputNames (Zero ex_env ex_used) = Map.empty
   \<and> go_len (MsgBytes (Zero ex_env ex_used)) = 4"
  using Zero_resets [OF ex_used_range] ex_used_range
  by (simp add: ex_used_def ex_pack_def ex_config_def go_cap_def go_len_def)

subsection \<open>Which events each stage produces\<close>


lemma decodeStage_events:
  assumes "decodeStage env pack = (go, pack1, evs)"
  shows "\<forall>e \<in> set evs. \<not> is_filter_call e \<and> \<not> is_deliver e \<and> stage_event e"
  using assms
  by (auto simp: decodeStage_def Let_def stage_event_def split: if_splits option.splits prod.splits)

lemma filter_calls_append: "filter_calls (xs @ ys) = filter_calls xs @ filter_calls ys"
  by (induction xs rule: filter_calls.induct) auto

lemma filter_calls_none:
  "\<forall>e \<in> set evs. \<not> is_filter_call e \<Longrightarrow> filter_calls evs = []"
  by (induction evs rule: filter_calls.induct) auto

lemma runFilters_events:
  assumes "runFilters env fs pack = (ex, pack', evs)"
  shows "\<forall>e \<in> set evs. is_filter_call e \<and> \<not> is_deliver e \<and> \<not> is_log e \<and> stage_event e"
  using assms
proof (induction fs arbitrary: pack ex pack' evs)
  case Nil
  then show ?case by simp
next
  case (Cons name rest)
  then show ?case
    by (fastforce simp: Let_def stage_event_def split: option.splits if_splits prod.splits)
qed

lemma deliverLoop_events:
  assumes "deliverLoop env ks pack = (pack', evs)"
  shows "\<forall>e \<in> set evs. \<not> is_filter_call e \<and> stage_event e"
  using assms
proof (induction ks arbitrary: pack pack' evs)
  case Nil
  then show ?case by simp
next
  case (Cons name rest)
  then show ?case
    by (fastforce simp: stage_event_def split: option.splits if_splits prod.splits)
qed

lemma filterProcessor_events:
  assumes "filterProcessor env pack = (ex, pack', evs)"
  shows "\<forall>e \<in> set evs. \<not> is_deliver e \<and> stage_event e"
  using assms runFilters_events
  by (fastforce simp: filterProcessor_def Let_def stage_event_def split: option.splits prod.splits)

lemma pipelineBody_abort:
  assumes "decodeStage env pack = (False, pack1, evs1)"
  shows "pipelineBody env pack = (Returned, pack1, evs1)"
  using assms by (simp add: pipelineBody_def)

lemma pipelineBody_go:
  assumes "decodeStage env pack = (True, pack1, evs1)"
      and "filterProcessor env pack1 = (ex2, pack2, evs2)"
  shows "pipelineBody env pack =
           (if ex2 = Panicked then (Panicked, pack2, evs1 @ evs2)
            else if Blocked pack2 then (Returned, pack2, evs1 @ evs2)
            else (Returned,
                  fst (deliverLoop env (rangeOrder env (has_key (OutputNames pack2))) pack2),
                  evs1 @ evs2 @
                  snd (deliverLoop env (rangeOrder env (has_key (OutputNames pack2))) pack2)))"
  using assms by (cases ex2) (simp_all add: pipelineBody_def split: prod.splits)

lemma pipelineBody_events:
  assumes "pipelineBody env pack = (ex, pack', evs)"
  shows "\<forall>e \<in> set evs. stage_event e"
proof -
  obtain go pack1 evs1 where dec: "decodeStage env pack = (go, pack1, evs1)"
    by (metis prod_cases3)
  have e1: "\<forall>e \<in> set evs1. stage_event e"
    using decodeStage_events [OF dec] by blast
  show ?thesis
  proof (cases go)
    case False
    then show ?thesis
      using assms dec e1 pipelineBody_abort [of env pack pack1 evs1] by simp
  next
    case True
    obtain ex2 pack2 evs2 where fp: "filterProcessor env pack1 = (ex2, pack2, evs2)"
      by (metis prod_cases3)
    have e2: "\<forall>e \<in> set evs2. stage_event e"
      using filterProcessor_events [OF fp] by blast
    obtain pack3 evs3 where
      dl: "deliverLoop env (rangeOrder env (has_key (OutputNames pack2))) pack2 = (pack3, evs3)"
      by (metis surj_pair)
    have e3: "\<forall>e \<in> set evs3. stage_event e"
      using deliverLoop_events [OF dl] by blast
    have "set evs \<subseteq> set evs1 \<union> set evs2 \<union> set evs3"
      using assms pipelineBody_go [of env pack pack1 evs1 ex2 pack2 evs2] dec fp dl True
      by (auto split: if_splits)
    then show ?thesis
      using e1 e2 e3 by blast
  qed
qed

lemma pipeline_room:
  assumes "length (buf ch) < chan_cap ch"
      and "pipelineBody env pack = (ex, pack1, evs)"
  shows "pipeline env ch pack =
           (ex, Zero env pack1, ch\<lparr>buf := buf ch @ [Zero env pack1]\<rparr>,
            evs @ [ZeroCalled, RecycleSent])"
  using assms by (simp add: pipeline_def send_def Let_def)

text \<open>
  C2. Whatever the unit and however the body ends (delivery, missing decoder, decode
  error, missing chain, filter block, and also the panic of a filter call on nil), the
  procedure calls \<open>Zero\<close> once and then sends the reset unit on the recycle channel once,
  as its last two steps; the channel gains exactly that unit. The hypothesis is that the
  channel has a free slot, so that the send completes.
\<close>

theorem pipeline_recycles_once:
  assumes "length (buf ch) < chan_cap ch"
  shows "\<exists>ex pack1 evs.
           pipelineBody env pack = (ex, pack1, evs)
         \<and> pipeline env ch pack =
             (ex, Zero env pack1, ch\<lparr>buf := buf ch @ [Zero env pack1]\<rparr>,
              evs @ [ZeroCalled, RecycleSent])
         \<and> count_list (evs @ [ZeroCalled, RecycleSent]) ZeroCalled = 1
         \<and> count_list (evs @ [ZeroCalled, RecycleSent]) RecycleSent = 1"
proof -
  obtain ex pack1 evs where body: "pipelineBody env pack = (ex, pack1, evs)"
    by (metis prod_cases3)
  have "\<forall>e \<in> set evs. stage_event e"
    using pipelineBody_events [OF body] .
  then have "ZeroCalled \<notin> set evs" and "RecycleSent \<notin> set evs"
    by (auto simp: stage_event_def)
  then have "count_list (evs @ [ZeroCalled, RecycleSent]) ZeroCalled = 1"
        and "count_list (evs @ [ZeroCalled, RecycleSent]) RecycleSent = 1"
    by simp_all
  then show ?thesis
    using body pipeline_room [OF assms body] by blast
qed


theorem pipeline_recycles_once_witness:
  "length (buf ex_chan) < chan_cap ex_chan
   \<and> pipeline ex_env ex_chan (ex_pack\<lparr>Decoder := ''bad''\<rparr>) =
       (Returned, ex_pack, ex_chan\<lparr>buf := [ex_pack, ex_pack]\<rparr>,
        [DecodeCalled ''bad'', Log ''Error decoding message (bad): bad payload'',
         ZeroCalled, RecycleSent])
   \<and> (\<exists>ex pack1 evs.
         pipelineBody ex_env (ex_pack\<lparr>Decoder := ''bad''\<rparr>) = (ex, pack1, evs)
       \<and> pipeline ex_env ex_chan (ex_pack\<lparr>Decoder := ''bad''\<rparr>) =
           (ex, Zero ex_env pack1, ex_chan\<lparr>buf := buf ex_chan @ [Zero ex_env pack1]\<rparr>,
            evs @ [ZeroCalled, RecycleSent])
       \<and> count_list (evs @ [ZeroCalled, RecycleSent]) ZeroCalled = 1
       \<and> count_list (evs @ [ZeroCalled, RecycleSent]) RecycleSent = 1)"
proof -
  have room: "length (buf ex_chan) < chan_cap ex_chan"
    by (simp add: ex_chan_def)
  have run: "pipeline ex_env ex_chan (ex_pack\<lparr>Decoder := ''bad''\<rparr>) =
       (Returned, ex_pack, ex_chan\<lparr>buf := [ex_pack, ex_pack]\<rparr>,
        [DecodeCalled ''bad'', Log ''Error decoding message (bad): bad payload'',
         ZeroCalled, RecycleSent])"
    by (simp add: ex_defs run_defs make_bytes_def reslice_to_cap_def go_cap_def)
  show ?thesis
    using room run pipeline_recycles_once [OF room, of ex_env "ex_pack\<lparr>Decoder := ''bad''\<rparr>"]
    by blast
qed

subsection \<open>Routing\<close>

text \<open>
  C4. When the lookup reports no match, the resolved chain name is the name the unit
  carries and the unit is left as it is; when it reports a match, the matched name is
  the resolved name and is written to the unit's chain field. The resolved name is the one
  \<open>filterProcessor\<close> looks up in the chain definitions and runs.
\<close>

theorem routing_fallback:
  "(\<forall>name. Lookup (Config pack) (Message pack) = (name, False) \<longrightarrow>
       resolveChain pack = (FilterChain pack, pack))
   \<and> (\<forall>name. Lookup (Config pack) (Message pack) = (name, True) \<longrightarrow>
       resolveChain pack = (name, pack\<lparr>FilterChain := name\<rparr>))
   \<and> (FilterChains (Config pack) (fst (resolveChain (pack\<lparr>OutputNames := Map.empty\<rparr>))) = None \<longrightarrow>
       filterProcessor env pack =
         (Returned, snd (resolveChain (pack\<lparr>OutputNames := Map.empty\<rparr>)),
          [Log (''Filter chain doesn't exist: '' @
                fst (resolveChain (pack\<lparr>OutputNames := Map.empty\<rparr>)))]))
   \<and> (\<forall>chain. FilterChains (Config pack) (fst (resolveChain (pack\<lparr>OutputNames := Map.empty\<rparr>)))
                 = Some chain \<longrightarrow>
       filterProcessor env pack =
         runFilters env (FilterChain.Filters chain)
           (selectOutputs (FilterChain.Outputs chain)
              (snd (resolveChain (pack\<lparr>OutputNames := Map.empty\<rparr>)))))"
  by (simp add: resolveChain_def filterProcessor_def Let_def split: prod.splits)

theorem routing_fallback_witness:
  "Lookup (Config (ex_used\<lparr>Message := ''ham''\<rparr>)) (Message (ex_used\<lparr>Message := ''ham''\<rparr>)) = ([], False)
   \<and> resolveChain (ex_used\<lparr>Message := ''ham''\<rparr>) = (''blocking'', ex_used\<lparr>Message := ''ham''\<rparr>)
   \<and> Lookup (Config ex_pack) (Message (ex_pack\<lparr>Message := ''spam''\<rparr>)) = (''blocking'', True)
   \<and> FilterChain (ex_pack\<lparr>Message := ''spam''\<rparr>) = ''default''
   \<and> resolveChain (ex_pack\<lparr>Message := ''spam''\<rparr>) =
       (''blocking'', ex_pack\<lparr>Message := ''spam'', FilterChain := ''blocking''\<rparr>)"
proof -
  have a: "Lookup (Config (ex_used\<lparr>Message := ''ham''\<rparr>)) (Message (ex_used\<lparr>Message := ''ham''\<rparr>))
             = ([], False)"
    by (simp add: ex_used_def ex_pack_def ex_config_def)
  have b: "Lookup (Config (ex_pack\<lparr>Message := ''spam''\<rparr>)) (Message (ex_pack\<lparr>Message := ''spam''\<rparr>))
             = (''blocking'', True)"
    by (simp add: ex_pack_def ex_config_def)
  have c: "FilterChain (ex_used\<lparr>Message := ''ham''\<rparr>) = ''blocking''"
          "FilterChain (ex_pack\<lparr>Message := ''spam''\<rparr>) = ''default''"
    by (simp_all add: ex_used_def ex_pack_def)
  from a routing_fallback [of "ex_used\<lparr>Message := ''ham''\<rparr>" ex_env]
  have "resolveChain (ex_used\<lparr>Message := ''ham''\<rparr>)
          = (FilterChain (ex_used\<lparr>Message := ''ham''\<rparr>), ex_used\<lparr>Message := ''ham''\<rparr>)"
    by blast
  moreover from b routing_fallback [of "ex_pack\<lparr>Message := ''spam''\<rparr>" ex_env]
  have "resolveChain (ex_pack\<lparr>Message := ''spam''\<rparr>)
          = (''blocking'', ex_pack\<lparr>Message := ''spam'', FilterChain := ''blocking''\<rparr>)"
    by simp
  ultimately show ?thesis
    using a b c by simp
qed

subsection \<open>A chain that is not defined\<close>

lemma deliverLoop_no_names:
  assumes "OutputNames pack = Map.empty"
  shows "deliverLoop env ks pack = (pack, [])"
  using assms by (induction ks) simp_all

lemma resolveChain_frame:
  assumes "resolveChain pack = (name, pack')"
  shows "OutputNames pack' = OutputNames pack \<and> Config pack' = Config pack
       \<and> Filters pack' = Filters pack \<and> Outputs pack' = Outputs pack
       \<and> Blocked pack' = Blocked pack"
  using assms by (auto simp: resolveChain_def Let_def split: prod.splits if_splits)

text \<open>
  C5. When the procedure reaches the filter stage and the resolved chain name is not among
  the chain definitions, the stage logs the name and returns with the set of output names
  empty; the cycle then calls no filter and no output, and it ends with \<open>Zero\<close> and the
  send of the unit on the recycle channel (which needs a free slot).
\<close>

theorem missing_chain_aborts:
  assumes dec: "decodeStage env pack = (True, pack1, evs1)"
      and res: "resolveChain (pack1\<lparr>OutputNames := Map.empty\<rparr>) = (name, pack2)"
      and absent: "FilterChains (Config pack1) name = None"
      and room: "length (buf ch) < chan_cap ch"
  shows "filterProcessor env pack1 =
           (Returned, pack2, [Log (''Filter chain doesn't exist: '' @ name)])
       \<and> OutputNames pack2 = Map.empty
       \<and> pipeline env ch pack =
           (Returned, Zero env pack2, ch\<lparr>buf := buf ch @ [Zero env pack2]\<rparr>,
            evs1 @ [Log (''Filter chain doesn't exist: '' @ name), ZeroCalled, RecycleSent])
       \<and> (\<forall>e \<in> set (evs1 @ [Log (''Filter chain doesn't exist: '' @ name),
                              ZeroCalled, RecycleSent]).
             \<not> is_filter_call e \<and> \<not> is_deliver e)"
proof -
  have fp: "filterProcessor env pack1 =
              (Returned, pack2, [Log (''Filter chain doesn't exist: '' @ name)])"
    using res absent by (simp add: filterProcessor_def Let_def)
  have names: "OutputNames pack2 = Map.empty"
    using resolveChain_frame [OF res] by simp
  have body: "pipelineBody env pack =
                (Returned, pack2, evs1 @ [Log (''Filter chain doesn't exist: '' @ name)])"
    using pipelineBody_go [OF dec fp] deliverLoop_no_names [OF names] by simp
  have run: "pipeline env ch pack =
           (Returned, Zero env pack2, ch\<lparr>buf := buf ch @ [Zero env pack2]\<rparr>,
            evs1 @ [Log (''Filter chain doesn't exist: '' @ name), ZeroCalled, RecycleSent])"
    using pipeline_room [OF room body] by simp
  have "\<forall>e \<in> set evs1. \<not> is_filter_call e \<and> \<not> is_deliver e"
    using decodeStage_events [OF dec] by blast
  then have quiet: "\<forall>e \<in> set (evs1 @ [Log (''Filter chain doesn't exist: '' @ name),
                              ZeroCalled, RecycleSent]).
             \<not> is_filter_call e \<and> \<not> is_deliver e"
    by simp
  show ?thesis
    using fp names run quiet by blast
qed


theorem missing_chain_aborts_witness:
  "decodeStage ex_env ex_lost =
     (True, ex_lost\<lparr>Message := ''lost'', Decoded := True\<rparr>, [DecodeCalled ''lostdec''])
   \<and> resolveChain (ex_lost\<lparr>Message := ''lost'', Decoded := True, OutputNames := Map.empty\<rparr>) =
       (''nowhere'', ex_lost\<lparr>Message := ''lost'', Decoded := True, FilterChain := ''nowhere''\<rparr>)
   \<and> FilterChains (Config (ex_lost\<lparr>Message := ''lost'', Decoded := True\<rparr>)) ''nowhere'' = None
   \<and> length (buf ex_chan) < chan_cap ex_chan
   \<and> pipeline ex_env ex_chan ex_lost =
       (Returned, ex_pack\<lparr>Message := ''lost''\<rparr>,
        ex_chan\<lparr>buf := [ex_pack, ex_pack\<lparr>Message := ''lost''\<rparr>]\<rparr>,
        [DecodeCalled ''lostdec'', Log ''Filter chain doesn't exist: nowhere'',
         ZeroCalled, RecycleSent])"
proof -
  let ?p1 = "ex_lost\<lparr>Message := ''lost'', Decoded := True\<rparr>"
  let ?p2 = "ex_lost\<lparr>Message := ''lost'', Decoded := True, FilterChain := ''nowhere''\<rparr>"
  have dec: "decodeStage ex_env ex_lost = (True, ?p1, [DecodeCalled ''lostdec''])"
    by (simp add: decodeStage_def Let_def ex_lost_def ex_defs)
  have res: "resolveChain (?p1\<lparr>OutputNames := Map.empty\<rparr>) = (''nowhere'', ?p2)"
    by (simp add: resolveChain_def ex_lost_def ex_defs)
  have absent: "FilterChains (Config ?p1) ''nowhere'' = None"
    by (simp add: ex_lost_def ex_defs)
  have room: "length (buf ex_chan) < chan_cap ex_chan"
    by (simp add: ex_chan_def)
  have z: "Zero ex_env ?p2 = ex_pack\<lparr>Message := ''lost''\<rparr>"
    by (simp add: Zero_def ex_lost_def ex_defs has_key_def make_bytes_def reslice_to_cap_def
        go_cap_def)
  have b: "buf ex_chan = [ex_pack]"
    by (simp add: ex_chan_def)
  show ?thesis
    using dec res absent room missing_chain_aborts [OF dec res absent room]
    by (simp add: z b)
qed

subsection \<open>Filters and blocking\<close>

lemma runFilters_calls:
  assumes "runFilters env fs pack = (ex, pack', evs)"
  shows "map fst (filter_calls evs) = take (length (filter_calls evs)) fs
       \<and> length (filter_calls evs) \<le> length evs
       \<and> (\<forall>i < length (filter_calls evs).
             snd (filter_calls evs ! i) \<longrightarrow>
               Suc i = length evs \<and> Blocked pack' \<and> ex = Returned)"
  using assms
proof (induction fs arbitrary: pack ex pack' evs)
  case Nil
  then show ?case by simp
next
  case (Cons name rest)
  show ?case
  proof (cases "Filters pack name")
    case None
    then show ?thesis
      using Cons.prems by auto
  next
    case (Some f)
    show ?thesis
    proof (cases "Blocked (FilterMsg env f pack)")
      case True
      then show ?thesis
        using Cons.prems Some by (auto simp: Let_def)
    next
      case False
      obtain ex1 pack1 evs1 where
        rest: "runFilters env rest (FilterMsg env f pack) = (ex1, pack1, evs1)"
        by (metis prod_cases3)
      have evs: "evs = FilterMsgCalled name False # evs1" and "ex = ex1" and "pack' = pack1"
        using Cons.prems Some False rest by (auto simp: Let_def)
      then show ?thesis
        using Cons.IH [OF rest] by (auto simp: nth_Cons split: nat.splits)
    qed
  qed
qed

text \<open>
  C1. Take a cycle that reaches the filter stage with a defined chain. If the call of the
  filter at position \<open>i\<close> of the chain's list leaves \<open>Blocked\<close> set, then the filters the
  cycle called are exactly those at positions \<open>0\<close> to \<open>i\<close>, in that order, so none after
  position \<open>i\<close> is called, and the cycle calls \<open>Deliver\<close> on no output.
\<close>

theorem filter_short_circuit:
  assumes dec: "decodeStage env pack = (True, pack1, evs1)"
      and chain: "FilterChains (Config pack1)
                    (fst (resolveChain (pack1\<lparr>OutputNames := Map.empty\<rparr>))) = Some chain"
      and run: "pipeline env ch pack = (ex, pack', ch', evs)"
      and i: "i < length (filter_calls evs)"
      and blocked: "snd (filter_calls evs ! i)"
  shows "map fst (filter_calls evs) = take (Suc i) (FilterChain.Filters chain)
       \<and> length (filter is_filter_call evs) = Suc i
       \<and> (\<forall>e \<in> set evs. \<not> is_deliver e)"
proof -
  let ?p0 = "pack1\<lparr>OutputNames := Map.empty\<rparr>"
  let ?p = "selectOutputs (FilterChain.Outputs chain) (snd (resolveChain ?p0))"
  obtain ex2 pack2 evs2 where fp: "filterProcessor env pack1 = (ex2, pack2, evs2)"
    by (metis prod_cases3)
  have rf: "runFilters env (FilterChain.Filters chain) ?p = (ex2, pack2, evs2)"
    using fp chain by (simp add: filterProcessor_def Let_def split: prod.splits)
  have fc1: "filter_calls evs1 = []" and nf1: "filter is_filter_call evs1 = []"
   and nd1: "\<forall>e \<in> set evs1. \<not> is_deliver e"
    using decodeStage_events [OF dec] by (auto simp: filter_calls_none filter_empty_conv)
  have all2: "\<forall>e \<in> set evs2. is_filter_call e \<and> \<not> is_deliver e"
    using runFilters_events [OF rf] by blast
  have calls: "map fst (filter_calls evs2) = take (length (filter_calls evs2)) (FilterChain.Filters chain)"
    and le: "length (filter_calls evs2) \<le> length evs2"
    and stop: "\<forall>j < length (filter_calls evs2).
             snd (filter_calls evs2 ! j) \<longrightarrow> Suc j = length evs2 \<and> Blocked pack2 \<and> ex2 = Returned"
    using runFilters_calls [OF rf] by blast+
  obtain pack3 evs3 where
    dl: "deliverLoop env (rangeOrder env (has_key (OutputNames pack2))) pack2 = (pack3, evs3)"
    by (metis surj_pair)
  have fc3: "filter_calls evs3 = []" and nf3: "filter is_filter_call evs3 = []"
    using deliverLoop_events [OF dl] by (auto simp: filter_calls_none filter_empty_conv)
  obtain exb packb evsb where body: "pipelineBody env pack = (exb, packb, evsb)"
    by (metis prod_cases3)
  have evsb: "evsb = evs1 @ evs2 \<or> (\<not> Blocked pack2 \<and> evsb = evs1 @ evs2 @ evs3)"
    using body pipelineBody_go [OF dec fp] dl by (auto split: if_splits)
  have evs: "evs = evsb @ [ZeroCalled] \<or> evs = evsb @ [ZeroCalled, RecycleSent]"
    using run body by (auto simp: pipeline_def Let_def split: option.splits)
  have fc: "filter_calls evs = filter_calls evs2"
    using evs evsb fc1 fc3 by (auto simp: filter_calls_append)
  have at_i: "Suc i = length evs2 \<and> Blocked pack2"
    using stop i blocked fc by auto
  have len: "length (filter_calls evs2) = Suc i"
    using at_i le i fc by auto
  have evsb2: "evsb = evs1 @ evs2"
    using evsb at_i by blast
  have f2: "filter is_filter_call evs2 = evs2"
    using all2 by (simp add: filter_id_conv)
  have "filter is_filter_call evs = evs2"
    using evs evsb2 nf1 f2 by auto
  moreover have "\<forall>e \<in> set evs. \<not> is_deliver e"
    using evs evsb2 nd1 all2 by auto
  ultimately show ?thesis
    using calls len fc at_i by simp
qed


lemma ex_spam_events:
  "snd (snd (snd (pipeline ex_env ex_chan ex_spam))) =
     [DecodeCalled ''spamdec'', FilterMsgCalled ''block-all'' True, ZeroCalled, RecycleSent]"
  by (simp add: ex_spam_def ex_defs run_defs)

theorem filter_short_circuit_witness:
  "decodeStage ex_env ex_spam =
     (True, ex_spam\<lparr>Message := ''spam'', Decoded := True\<rparr>, [DecodeCalled ''spamdec''])
   \<and> FilterChains (Config (ex_spam\<lparr>Message := ''spam'', Decoded := True\<rparr>))
        (fst (resolveChain (ex_spam\<lparr>Message := ''spam'', Decoded := True,
                                   OutputNames := Map.empty\<rparr>))) =
       Some \<lparr>FilterChain.Filters = [''block-all'', ''noop''], FilterChain.Outputs = [''out1'']\<rparr>
   \<and> snd (snd (snd (pipeline ex_env ex_chan ex_spam))) =
       [DecodeCalled ''spamdec'', FilterMsgCalled ''block-all'' True, ZeroCalled, RecycleSent]
   \<and> filter_calls (snd (snd (snd (pipeline ex_env ex_chan ex_spam)))) ! 0 = (''block-all'', True)
   \<and> map fst (filter_calls (snd (snd (snd (pipeline ex_env ex_chan ex_spam))))) = [''block-all'']
   \<and> length (filter is_filter_call (snd (snd (snd (pipeline ex_env ex_chan ex_spam))))) = 1
   \<and> filter is_deliver (snd (snd (snd (pipeline ex_env ex_chan ex_spam)))) = []"
proof -
  let ?R = "pipeline ex_env ex_chan ex_spam"
  let ?p1 = "ex_spam\<lparr>Message := ''spam'', Decoded := True\<rparr>"
  let ?chain = "\<lparr>FilterChain.Filters = [''block-all'', ''noop''], FilterChain.Outputs = [''out1'']\<rparr>"
  have dec: "decodeStage ex_env ex_spam = (True, ?p1, [DecodeCalled ''spamdec''])"
    by (simp add: decodeStage_def Let_def ex_spam_def ex_defs)
  have chain: "FilterChains (Config ?p1) (fst (resolveChain (?p1\<lparr>OutputNames := Map.empty\<rparr>)))
                 = Some ?chain"
    by (simp add: resolveChain_def ex_spam_def ex_defs)
  have run: "?R = (fst ?R, fst (snd ?R), fst (snd (snd ?R)), snd (snd (snd ?R)))"
    by simp
  have i: "0 < length (filter_calls (snd (snd (snd ?R))))"
    by (simp add: ex_spam_events)
  have blocked: "snd (filter_calls (snd (snd (snd ?R))) ! 0)"
    by (simp add: ex_spam_events)
  show ?thesis
    using dec chain filter_short_circuit [OF dec chain run i blocked]
    by (simp add: ex_spam_events)
qed

subsection \<open>Delivery\<close>


lemma count_list_no_deliver:
  "\<forall>e \<in> set evs. \<not> is_deliver e \<Longrightarrow> count_list evs (DeliverCalled n) = 0"
  by (induction evs) auto

lemma deliverLoop_counts:
  assumes "output_frame env"
      and "distinct ks"
      and "deliverLoop env ks pack = (pack', evs)"
  shows "OutputNames pack' = OutputNames pack \<and> Outputs pack' = Outputs pack
       \<and> (\<forall>n. count_list evs (DeliverCalled n) =
               (if n \<in> set ks \<and> OutputNames pack n = Some True \<and> Outputs pack n \<noteq> None
                then 1 else 0))
       \<and> (\<forall>n. count_list evs (Log (''Output doesn't exist: '' @ n @ [CHR 0x0A])) =
               (if n \<in> set ks \<and> OutputNames pack n = Some True \<and> Outputs pack n = None
                then 1 else 0))"
  using assms(2,3)
proof (induction ks arbitrary: pack pack' evs)
  case Nil
  then show ?case by simp
next
  case (Cons k rest)
  have d: "distinct rest" and k: "k \<notin> set rest"
    using Cons.prems(1) by simp_all
  show ?case
  proof (cases "OutputNames pack k = Some True")
    case False
    then have "deliverLoop env rest pack = (pack', evs)"
      using Cons.prems(2) by (auto split: option.splits if_splits)
    from Cons.IH [OF d this] False show ?thesis
      by auto
  next
    case sel: True
    show ?thesis
    proof (cases "Outputs pack k")
      case None
      obtain evs' where rest: "deliverLoop env rest pack = (pack', evs')"
        and evs: "evs = Log (''Output doesn't exist: '' @ k @ [CHR 0x0A]) # evs'"
        using Cons.prems(2) sel None by (auto split: prod.splits)
      from Cons.IH [OF d rest] sel None k evs show ?thesis
        by auto
    next
      case (Some out)
      obtain evs' where rest: "deliverLoop env rest (Deliver env out pack) = (pack', evs')"
        and evs: "evs = DeliverCalled k # evs'"
        using Cons.prems(2) sel Some by (auto split: prod.splits)
      have fr: "OutputNames (Deliver env out pack) = OutputNames pack"
               "Outputs (Deliver env out pack) = Outputs pack"
        using assms(1) by (simp_all add: output_frame_def)
      from Cons.IH [OF d rest] sel Some k evs fr show ?thesis
        by auto
    qed
  qed
qed

text \<open>
  C6. Take a cycle that reaches delivery (the filter stage returned and \<open>Blocked\<close> is
  false), with outputs that keep to \<open>output_frame\<close>, and a selected output name. If the
  name is absent from the unit's map of output instances, the cycle logs it and calls no
  \<open>Deliver\<close> for it; if the name is present, the cycle calls \<open>Deliver\<close> for it exactly
  once, whatever other selected names are absent.
\<close>

theorem missing_output_tolerated:
  assumes frame: "output_frame env"
      and dec: "decodeStage env pack = (True, pack1, evs1)"
      and fp: "filterProcessor env pack1 = (Returned, pack2, evs2)"
      and nb: "\<not> Blocked pack2"
      and rng: "range_ok env (OutputNames pack2)"
      and run: "pipeline env ch pack = (ex, pack', ch', evs)"
      and sel: "OutputNames pack2 name = Some True"
  shows "(Outputs pack2 name = None \<longrightarrow>
            Log (''Output doesn't exist: '' @ name @ [CHR 0x0A]) \<in> set evs
          \<and> DeliverCalled name \<notin> set evs)
       \<and> (Outputs pack2 name \<noteq> None \<longrightarrow> count_list evs (DeliverCalled name) = 1)"
proof -
  let ?ks = "rangeOrder env (has_key (OutputNames pack2))"
  obtain pack3 evs3 where dl: "deliverLoop env ?ks pack2 = (pack3, evs3)"
    by (metis surj_pair)
  have ks: "distinct ?ks" and mem: "name \<in> set ?ks"
    using rng sel by (auto simp: range_ok_def)
  have cd: "count_list evs3 (DeliverCalled name) = (if Outputs pack2 name \<noteq> None then 1 else 0)"
   and cl: "count_list evs3 (Log (''Output doesn't exist: '' @ name @ [CHR 0x0A])) =
              (if Outputs pack2 name = None then 1 else 0)"
    using deliverLoop_counts [OF frame ks dl] sel mem by simp_all
  have body: "pipelineBody env pack = (Returned, pack3, evs1 @ evs2 @ evs3)"
    using pipelineBody_go [OF dec fp] nb dl by simp
  have evs: "evs = evs1 @ evs2 @ evs3 @ [ZeroCalled] \<or>
             evs = evs1 @ evs2 @ evs3 @ [ZeroCalled, RecycleSent]"
    using run body by (auto simp: pipeline_def Let_def split: option.splits)
  have c1: "count_list evs1 (DeliverCalled name) = 0"
    using decodeStage_events [OF dec] by (simp add: count_list_no_deliver)
  have c2: "count_list evs2 (DeliverCalled name) = 0"
    using filterProcessor_events [OF fp] by (simp add: count_list_no_deliver)
  have total: "count_list evs (DeliverCalled name) = count_list evs3 (DeliverCalled name)"
    using evs c1 c2 by auto
  have "Outputs pack2 name = None \<Longrightarrow>
          Log (''Output doesn't exist: '' @ name @ [CHR 0x0A]) \<in> set evs3"
    using cl by (metis count_list_0_iff zero_neq_one)
  moreover have "Outputs pack2 name = None \<Longrightarrow> DeliverCalled name \<notin> set evs"
    using total cd by (simp add: count_list_0_iff)
  ultimately show ?thesis
    using total cd evs by auto
qed


theorem missing_output_tolerated_witness:
  "output_frame ex_env
   \<and> decodeStage ex_env ex_pack = (True, ex_ham1, [DecodeCalled ''json''])
   \<and> filterProcessor ex_env ex_ham1 = (Returned, ex_ham2, [])
   \<and> \<not> Blocked ex_ham2
   \<and> range_ok ex_env (OutputNames ex_ham2)
   \<and> OutputNames ex_ham2 ''out1'' = Some True \<and> Outputs ex_ham2 ''out1'' = Some 5
   \<and> OutputNames ex_ham2 ''out2'' = Some True \<and> Outputs ex_ham2 ''out2'' = None
   \<and> Log (''Output doesn't exist: '' @ ''out2'' @ [CHR 0x0A])
        \<in> set (snd (snd (snd (pipeline ex_env ex_chan ex_pack))))
   \<and> DeliverCalled ''out2'' \<notin> set (snd (snd (snd (pipeline ex_env ex_chan ex_pack))))
   \<and> count_list (snd (snd (snd (pipeline ex_env ex_chan ex_pack)))) (DeliverCalled ''out1'') = 1"
proof -
  let ?R = "pipeline ex_env ex_chan ex_pack"
  have frame: "output_frame ex_env"
    by (simp add: output_frame_def ex_env_def)
  have dec: "decodeStage ex_env ex_pack = (True, ex_ham1, [DecodeCalled ''json''])"
    by (simp add: decodeStage_def Let_def ex_ham1_def ex_defs)
  have fp: "filterProcessor ex_env ex_ham1 = (Returned, ex_ham2, [])"
    by (simp add: filterProcessor_def resolveChain_def selectOutputs_def Let_def
        ex_ham2_def ex_ham1_def ex_defs)
  have nb: "\<not> Blocked ex_ham2"
    by (simp add: ex_ham2_def ex_ham1_def ex_defs)
  have rng: "range_ok ex_env (OutputNames ex_ham2)"
    by (auto simp: range_ok_def has_key_def ex_ham2_def ex_ham1_def ex_defs)
  have run: "?R = (fst ?R, fst (snd ?R), fst (snd (snd ?R)), snd (snd (snd ?R)))"
    by simp
  have s1: "OutputNames ex_ham2 ''out1'' = Some True" and o1: "Outputs ex_ham2 ''out1'' = Some 5"
   and s2: "OutputNames ex_ham2 ''out2'' = Some True" and o2: "Outputs ex_ham2 ''out2'' = None"
    by (simp_all add: ex_ham2_def ex_ham1_def ex_defs)
  show ?thesis
    using frame dec fp nb rng s1 o1 s2 o2
      missing_output_tolerated [OF frame dec fp nb rng run s1]
      missing_output_tolerated [OF frame dec fp nb rng run s2]
    by simp
qed

subsection \<open>A filter name that no instance is stored under\<close>

lemma filterProcessor_chain:
  assumes "FilterChains (Config pack)
             (fst (resolveChain (pack\<lparr>OutputNames := Map.empty\<rparr>))) = Some chain"
  shows "filterProcessor env pack =
           runFilters env (FilterChain.Filters chain)
             (selectOutputs (FilterChain.Outputs chain)
                (snd (resolveChain (pack\<lparr>OutputNames := Map.empty\<rparr>))))"
  using assms
  by (cases "resolveChain (pack\<lparr>OutputNames := Map.empty\<rparr>)")
     (simp add: filterProcessor_def Let_def)

lemma runFilters_nil_call:
  assumes "runFilters env pre pack = (Returned, pack1, evs1)"
      and "\<not> Blocked pack1"
      and "Filters pack1 name = None"
  shows "runFilters env (pre @ name # rest) pack = (Panicked, pack1, evs1 @ [NilFilterCall name])"
  using assms
proof (induction pre arbitrary: pack evs1)
  case Nil
  then show ?case by simp
next
  case (Cons n pre)
  show ?case
  proof (cases "Filters pack n")
    case None
    then show ?thesis
      using Cons.prems by simp
  next
    case (Some f)
    show ?thesis
    proof (cases "Blocked (FilterMsg env f pack)")
      case True
      then show ?thesis
        using Cons.prems Some by (auto simp: Let_def)
    next
      case False
      obtain evs' where run: "runFilters env pre (FilterMsg env f pack) = (Returned, pack1, evs')"
        and evs1: "evs1 = FilterMsgCalled n False # evs'"
        using Cons.prems(1) Some False by (auto simp: Let_def split: prod.splits)
      from Cons.IH [OF run Cons.prems(2,3)] Some False evs1 show ?thesis
        by (simp add: Let_def)
    qed
  qed
qed

text \<open>
  C10. The three lookups side by side. An absent decoder name and an absent output name
  are logged, and the procedure returns, respectively goes on with the next name. An
  absent filter name is not tested: when the filters before it in the chain have run
  without blocking, the stage calls \<open>FilterMsg\<close> on the nil instance, logs nothing, and
  the cycle ends in a panic (after which the deferred function still runs).
\<close>

theorem unguarded_filter_lookup:
  assumes dec: "decodeStage env pack = (True, pack1, evs1)"
      and chain: "FilterChains (Config pack1)
                    (fst (resolveChain (pack1\<lparr>OutputNames := Map.empty\<rparr>))) = Some chain"
      and split: "FilterChain.Filters chain = pre @ name # rest"
      and pre: "runFilters env pre
                  (selectOutputs (FilterChain.Outputs chain)
                     (snd (resolveChain (pack1\<lparr>OutputNames := Map.empty\<rparr>))))
                  = (Returned, pack2, evs2)"
      and nb: "\<not> Blocked pack2"
      and absent: "Filters pack2 name = None"
      and room: "length (buf ch) < chan_cap ch"
  shows "filterProcessor env pack1 = (Panicked, pack2, evs2 @ [NilFilterCall name])
       \<and> pipeline env ch pack =
           (Panicked, Zero env pack2, ch\<lparr>buf := buf ch @ [Zero env pack2]\<rparr>,
            evs1 @ evs2 @ [NilFilterCall name, ZeroCalled, RecycleSent])
       \<and> filter is_log evs2 = []
       \<and> (\<forall>q. \<not> Decoded q \<and> Decoders q (Decoder q) = None \<longrightarrow>
              decodeStage env q =
                (False, q, [Log (''Decoder doesn't exist: '' @ Decoder q @ [CHR 0x0A])]))
       \<and> (\<forall>q n ks. OutputNames q n = Some True \<and> Outputs q n = None \<longrightarrow>
              deliverLoop env (n # ks) q =
                (fst (deliverLoop env ks q),
                 Log (''Output doesn't exist: '' @ n @ [CHR 0x0A]) # snd (deliverLoop env ks q)))"
proof -
  have fp: "filterProcessor env pack1 = (Panicked, pack2, evs2 @ [NilFilterCall name])"
    using split runFilters_nil_call [OF pre nb absent, of rest]
    by (simp add: filterProcessor_chain [OF chain])
  have body: "pipelineBody env pack = (Panicked, pack2, evs1 @ evs2 @ [NilFilterCall name])"
    using pipelineBody_go [OF dec fp] by simp
  have run: "pipeline env ch pack =
           (Panicked, Zero env pack2, ch\<lparr>buf := buf ch @ [Zero env pack2]\<rparr>,
            evs1 @ evs2 @ [NilFilterCall name, ZeroCalled, RecycleSent])"
    using pipeline_room [OF room body] by simp
  have nolog: "filter is_log evs2 = []"
    using runFilters_events [OF pre] by (auto simp: filter_empty_conv)
  have d: "\<forall>q. \<not> Decoded q \<and> Decoders q (Decoder q) = None \<longrightarrow>
              decodeStage env q =
                (False, q, [Log (''Decoder doesn't exist: '' @ Decoder q @ [CHR 0x0A])])"
    by (simp add: decodeStage_def Let_def)
  have out: "\<forall>q n ks. OutputNames q n = Some True \<and> Outputs q n = None \<longrightarrow>
              deliverLoop env (n # ks) q =
                (fst (deliverLoop env ks q),
                 Log (''Output doesn't exist: '' @ n @ [CHR 0x0A]) # snd (deliverLoop env ks q))"
    by (simp split: prod.splits)
  show ?thesis
    using fp run nolog d out by blast
qed


theorem unguarded_filter_lookup_witness:
  "decodeStage ex_env ex_ghost = (True, ex_ghost1, [DecodeCalled ''ghostdec''])
   \<and> FilterChains (Config ex_ghost1)
        (fst (resolveChain (ex_ghost1\<lparr>OutputNames := Map.empty\<rparr>))) = Some ex_ghost_chain
   \<and> FilterChain.Filters ex_ghost_chain = [''noop''] @ ''missing'' # []
   \<and> runFilters ex_env [''noop'']
        (selectOutputs (FilterChain.Outputs ex_ghost_chain)
           (snd (resolveChain (ex_ghost1\<lparr>OutputNames := Map.empty\<rparr>))))
        = (Returned, ex_ghost2, [FilterMsgCalled ''noop'' False])
   \<and> \<not> Blocked ex_ghost2
   \<and> Filters ex_ghost2 ''missing'' = None
   \<and> length (buf ex_chan) < chan_cap ex_chan
   \<and> filterProcessor ex_env ex_ghost1 =
       (Panicked, ex_ghost2, [FilterMsgCalled ''noop'' False, NilFilterCall ''missing''])
   \<and> pipeline ex_env ex_chan ex_ghost =
       (Panicked, Zero ex_env ex_ghost2, ex_chan\<lparr>buf := buf ex_chan @ [Zero ex_env ex_ghost2]\<rparr>,
        [DecodeCalled ''ghostdec'', FilterMsgCalled ''noop'' False, NilFilterCall ''missing'',
         ZeroCalled, RecycleSent])"
proof -
  have dec: "decodeStage ex_env ex_ghost = (True, ex_ghost1, [DecodeCalled ''ghostdec''])"
    by (simp add: decodeStage_def Let_def ex_ghost1_def ex_ghost_def ex_defs)
  have chain: "FilterChains (Config ex_ghost1)
        (fst (resolveChain (ex_ghost1\<lparr>OutputNames := Map.empty\<rparr>))) = Some ex_ghost_chain"
    by (simp add: resolveChain_def ex_ghost_chain_def ex_ghost1_def ex_ghost_def ex_defs)
  have split: "FilterChain.Filters ex_ghost_chain = [''noop''] @ ''missing'' # []"
    by (simp add: ex_ghost_chain_def)
  have pre: "runFilters ex_env [''noop'']
        (selectOutputs (FilterChain.Outputs ex_ghost_chain)
           (snd (resolveChain (ex_ghost1\<lparr>OutputNames := Map.empty\<rparr>))))
        = (Returned, ex_ghost2, [FilterMsgCalled ''noop'' False])"
    by (simp add: resolveChain_def selectOutputs_def Let_def ex_ghost_chain_def ex_ghost2_def
        ex_ghost1_def ex_ghost_def ex_defs)
  have nb: "\<not> Blocked ex_ghost2"
    by (simp add: ex_ghost2_def ex_ghost1_def ex_ghost_def ex_defs)
  have absent: "Filters ex_ghost2 ''missing'' = None"
    by (simp add: ex_ghost2_def ex_ghost1_def ex_ghost_def ex_defs)
  have room: "length (buf ex_chan) < chan_cap ex_chan"
    by (simp add: ex_chan_def)
  show ?thesis
    using dec chain split pre nb absent room
      unguarded_filter_lookup [OF dec chain split pre nb absent room]
    by simp
qed

subsection \<open>Broadcast\<close>

lemma set_eventLoop:
  "set (eventLoop wrappers eventType ks) =
     {EventCalled g eventType | g name wrapper.
        name \<in> set ks \<and> wrappers name = Some wrapper \<and> global wrapper = Some g}"
proof (induction ks)
  case Nil
  then show ?case by simp
next
  case (Cons k ks)
  show ?case
  proof (cases "wrappers k")
    case None
    then show ?thesis
      using Cons.IH by auto
  next
    case (Some w)
    then show ?thesis
      using Cons.IH by (cases "global w") auto
  qed
qed

text \<open>
  C7. For \<open>RELOAD\<close> and for \<open>STOP\<close> (and for any other event type), \<open>BroadcastEvent\<close> calls
  \<open>Event\<close> with that type on the shared state of every filter wrapper and of every output
  wrapper of the configuration that has one, whether the publish returned an error or
  not; an error of the publish only adds a log line. The assumption is that the two
  \<open>range\<close> loops visit every key of their maps.
\<close>

theorem broadcast_reaches_every_global:
  assumes "eventType \<in> {RELOAD, STOP}"
      and "range_ok env (PipelineConfig.Filters config)"
      and "range_ok env (PipelineConfig.Outputs config)"
  shows "(\<forall>name wrapper g.
            PipelineConfig.Filters config name = Some wrapper \<and> global wrapper = Some g \<longrightarrow>
              EventCalled g eventType \<in> set (BroadcastEvent env config eventType))
       \<and> (\<forall>name wrapper g.
            PipelineConfig.Outputs config name = Some wrapper \<and> global wrapper = Some g \<longrightarrow>
              EventCalled g eventType \<in> set (BroadcastEvent env config eventType))
       \<and> (\<forall>err. Post env eventType = Some err \<longrightarrow>
              CtlLog (''Error sending '' @ err @ '' event:'')
                \<in> set (BroadcastEvent env config eventType))
       \<and> filter (\<lambda>e. case e of EventCalled g t \<Rightarrow> True | _ \<Rightarrow> False)
            (BroadcastEvent env config eventType) =
          eventLoop (PipelineConfig.Filters config) eventType
            (rangeOrder env (has_key (PipelineConfig.Filters config))) @
          eventLoop (PipelineConfig.Outputs config) eventType
            (rangeOrder env (has_key (PipelineConfig.Outputs config)))"
proof -
  have f: "set (rangeOrder env (has_key (PipelineConfig.Filters config)))
             = dom (PipelineConfig.Filters config)"
   and out: "set (rangeOrder env (has_key (PipelineConfig.Outputs config)))
             = dom (PipelineConfig.Outputs config)"
    using assms by (simp_all add: range_ok_def)
  have all_events: "\<And>ws ks. filter (\<lambda>e. case e of EventCalled g t \<Rightarrow> True | _ \<Rightarrow> False)
            (eventLoop ws eventType ks) = eventLoop ws eventType ks"
  proof -
    fix ws :: "string \<rightharpoonup> ('x, 'g) PluginWrapper" and ks
    show "filter (\<lambda>e. case e of EventCalled g t \<Rightarrow> True | _ \<Rightarrow> False)
            (eventLoop ws eventType ks) = eventLoop ws eventType ks"
      by (induction ks) (auto split: option.splits)
  qed
  show ?thesis
    by (auto simp: BroadcastEvent_def Let_def set_eventLoop f out all_events split: option.splits)
qed

theorem broadcast_reaches_every_global_witness:
  "STOP \<in> {RELOAD, STOP}
   \<and> range_ok ex_env (PipelineConfig.Filters ex_config)
   \<and> range_ok ex_env (PipelineConfig.Outputs ex_config)
   \<and> Post ex_env STOP = Some ''no listeners''
   \<and> PipelineConfig.Filters ex_config ''block-all'' = Some \<lparr>global = Some 7, Create = (\<lambda>u. 1)\<rparr>
   \<and> PipelineConfig.Outputs ex_config ''out1'' = Some \<lparr>global = Some 9, Create = (\<lambda>u. 5)\<rparr>
   \<and> EventCalled 7 STOP \<in> set (BroadcastEvent ex_env ex_config STOP)
   \<and> EventCalled 9 STOP \<in> set (BroadcastEvent ex_env ex_config STOP)
   \<and> CtlLog ''Error sending no listeners event:'' \<in> set (BroadcastEvent ex_env ex_config STOP)
   \<and> BroadcastEvent ex_env ex_config STOP =
       [PostCalled ''stop'', CtlLog ''Error sending no listeners event:'',
        EventCalled 7 ''stop'', EventCalled 9 ''stop'']"
proof -
  have ev: "STOP \<in> {RELOAD, STOP}"
    by simp
  have rf: "range_ok ex_env (PipelineConfig.Filters ex_config)"
    by (auto simp: range_ok_def has_key_def ex_env_def ex_config_def)
  have ro: "range_ok ex_env (PipelineConfig.Outputs ex_config)"
    by (auto simp: range_ok_def has_key_def ex_env_def ex_config_def)
  have post: "Post ex_env STOP = Some ''no listeners''"
    by (simp add: ex_env_def STOP_def)
  have w1: "PipelineConfig.Filters ex_config ''block-all''
              = Some \<lparr>global = Some 7, Create = (\<lambda>u. 1)\<rparr>
            \<and> global \<lparr>global = Some (7::nat), Create = (\<lambda>u. 1::nat)\<rparr> = Some 7"
    by (simp add: ex_config_def)
  have w2: "PipelineConfig.Outputs ex_config ''out1''
              = Some \<lparr>global = Some 9, Create = (\<lambda>u. 5)\<rparr>
            \<and> global \<lparr>global = Some (9::nat), Create = (\<lambda>u. 5::nat)\<rparr> = Some 9"
    by (simp add: ex_config_def)
  have run: "BroadcastEvent ex_env ex_config STOP =
       [PostCalled ''stop'', CtlLog ''Error sending no listeners event:'',
        EventCalled 7 ''stop'', EventCalled 9 ''stop'']"
    by (simp add: BroadcastEvent_def has_key_def STOP_def ex_env_def ex_config_def)
  note inst = broadcast_reaches_every_global [OF ev rf ro]
  have e1: "EventCalled 7 STOP \<in> set (BroadcastEvent ex_env ex_config STOP)"
    using inst w1 by blast
  have e2: "EventCalled 9 STOP \<in> set (BroadcastEvent ex_env ex_config STOP)"
    using inst w2 by blast
  have e3: "CtlLog (''Error sending '' @ ''no listeners'' @ '' event:'')
              \<in> set (BroadcastEvent ex_env ex_config STOP)"
    using inst post by blast
  show ?thesis
    using ev rf ro post w1 w2 e1 e2 e3 run by simp
qed

subsection \<open>The pool\<close>















subsection \<open>The flag \<open>Decoded\<close> and the message field\<close>









end
